theory Spec2Isabelle
  imports Main
begin

section \<open>Parent-side connection establishment (src/parent/connectToChild.ts)\<close>

text \<open>
  The file under study is \<^verbatim>\<open>src/parent/connectToChild.ts\<close>: the function that a
  parent window calls to start a handshake with an iframe. It returns a handle
  \<^verbatim>\<open>{ promise, destroy }\<close>. Everything the function does happens in a closure: the
  promise executor registers a message listener, starts the connection timeout, starts the
  iframe-removal monitor and registers a cleanup with the destructor. The closure's
  variables are gathered in the record \<open>Attempt\<close>; every callback of the source is a
  function from \<open>Attempt\<close> to \<open>Attempt\<close>; the browser's event loop is a list of
  events applied in order (JavaScript runs one callback at a time).

  The modules that \<^verbatim>\<open>connectToChild.ts\<close> imports are not part of the sources at
  hand. They are treated in two ways.
  \<^item> The two handshake handlers (\<^verbatim>\<open>handleSynMessageFactory\<close>,
    \<^verbatim>\<open>handleAckMessageFactory\<close>) and the two origin helpers
    (\<^verbatim>\<open>validateIframeHasSrcOrSrcDoc\<close>, \<^verbatim>\<open>getOriginFromSrc\<close>) are parameters of the model,
    the record \<open>Helpers\<close>: what \<^verbatim>\<open>connectToChild.ts\<close> does whatever they do is proved for
    all of them. Where a property rests on what they do, they are modelled from the
    specification (the helpers \<open>specified\<close>).
  \<^item> The destructor (\<^verbatim>\<open>createDestructor\<close>), the timeout guard
    (\<^verbatim>\<open>startConnectionTimeout\<close>), the iframe monitor (\<^verbatim>\<open>monitorIframeRemoval\<close>),
    \<^verbatim>\<open>serializeMethods\<close> and the enums are modelled from the specification, and marked so.
  The logger is left out: it writes to the console only.
\<close>

subsection \<open>Data\<close>

text \<open>Modelled from the spec: the failure taxonomy of section 7 (the enum \<^verbatim>\<open>ErrorCode\<close>
  is imported from \<^verbatim>\<open>../enums\<close>, which is missing).\<close>

datatype ErrorCode = ConnectionTimedOut | ConnectionDestroyed | PeerLost | PrincipalUnresolved

text \<open>Modelled from the spec: a \<^verbatim>\<open>PenpalError\<close> (type imported from \<^verbatim>\<open>../types\<close>,
  which is missing) is a classified failure: an \<^verbatim>\<open>Error\<close> object carrying a code. As an
  object it is always truthy; an absent error (\<^verbatim>\<open>undefined\<close>) is \<open>None\<close>.\<close>

datatype PenpalError = PenpalError (code: ErrorCode)

text \<open>Modelled from the spec: the protocol tags \<^verbatim>\<open>MessageType.Syn\<close> and
  \<^verbatim>\<open>MessageType.Ack\<close> (enum missing). \<open>Other\<close> stands for any other value of the
  field \<^verbatim>\<open>event.data.penpal\<close>; a field that is missing is \<open>None\<close> in \<open>penpal\<close>.\<close>

datatype MessageType = Syn | Ack | Other string

record EventData =
  penpal :: "MessageType option"
  methodNames :: "string list"

text \<open>A \<^verbatim>\<open>MessageEvent\<close>: \<open>data = None\<close> is a falsy \<^verbatim>\<open>event.data\<close>
  (the test \<^verbatim>\<open>!event.data\<close> of line 100), \<open>origin\<close> is \<^verbatim>\<open>event.origin\<close>.\<close>

record MessageEvent =
  data :: "EventData option"
  origin :: string

text \<open>The handshake messages of the spec's data model. What is posted is a message with
  its target origin.\<close>

datatype HandshakeMessage = SynMessage | AckMessage "string list"

type_synonym Posted = "HandshakeMessage \<times> string"

text \<open>Modelled from the spec: the remote-call interface (\<^verbatim>\<open>callSender\<close>, section 6) is an
  object with one stub per method name. A stub records the name it forwards and the origin
  it posts to. The object is an association list; its key set is the set of first
  components.\<close>

datatype Stub = Stub string string

type_synonym CallSender = "(string \<times> Stub) list"

definition keySet :: "CallSender \<Rightarrow> string set" where
  "keySet callSender = fst ` set callSender"

text \<open>A JavaScript promise: pending, or settled one way or the other, or locked in. A promise
  that is resolved with an object whose \<^verbatim>\<open>then\<close> is callable is not fulfilled with that
  object: it is locked in to it. From then on the functions \<^verbatim>\<open>resolve\<close> and \<^verbatim>\<open>reject\<close>
  of the executor have no effect, and what becomes of the promise is up to the calls that
  the object's \<^verbatim>\<open>then\<close> makes, here a stub of the call layer, which is outside this file.\<close>

datatype PromiseState =
  Pending | Fulfilled CallSender | Rejected PenpalError | LockedIn CallSender

text \<open>Modelled from the spec: the states of the handshake state machine (section 4.5).\<close>

datatype HandshakeState = AwaitingSyn | AwaitingAck | Established

text \<open>The callbacks registered with the destructor, by name: the one of
  \<^verbatim>\<open>monitorIframeRemoval\<close> and the one of lines 127 to 136.\<close>

datatype Cleanup = IframeMonitorCleanup | ListenerCleanup

record Iframe =
  src :: string
  srcdoc :: string

text \<open>The options of lines 20 to 50 that matter here. \<open>timeout\<close> is in milliseconds;
  \<open>methods\<close> maps names to implementations of some type \<open>'f\<close>.\<close>

record 'f Options =
  iframe :: Iframe
  methods :: "(string \<times> 'f) list option"
  childOrigin :: "string option"
  timeout :: "int option"

text \<open>The imported functions that are parameters. The two factories are called with
  \<^verbatim>\<open>serializedMethods\<close>, \<^verbatim>\<open>childOrigin\<close> and \<^verbatim>\<open>originForSending\<close> (lines 81 to 94) and
  return a handler of message events. The handlers keep a state of their own between
  calls, of some type \<open>'p\<close>, which starts as \<open>handshakeStart\<close>. A Syn handler returns the
  new state and the messages it has posted; it is handed neither the destructor nor the
  promise (lines 81 to 86). An Ack handler returns a call sender or nothing
  (\<^verbatim>\<open>undefined\<close>) and the new state; it is also handed the parent window and the
  destructor (lines 88 and 92), of which the specification lets it make no use, and the
  model none. \<open>validateIframeHasSrcOrSrcDoc\<close> returns nothing, so that it can only fail
  by throwing: \<open>Some e\<close> is the exception thrown.\<close>

record 'p Helpers =
  getOriginFromSrc :: "string \<Rightarrow> string"
  validateIframeHasSrcOrSrcDoc :: "Iframe \<Rightarrow> PenpalError option"
  handshakeStart :: 'p
  handleSynMessageFactory ::
    "string list \<Rightarrow> string \<Rightarrow> string \<Rightarrow> MessageEvent \<Rightarrow> 'p \<Rightarrow> 'p \<times> Posted list"
  handleAckMessageFactory ::
    "string list \<Rightarrow> string \<Rightarrow> string \<Rightarrow> MessageEvent \<Rightarrow> 'p \<Rightarrow> CallSender option \<times> 'p"

text \<open>The variables of the closure. \<open>childOrigin'\<close> is the local \<^verbatim>\<open>childOrigin\<close> after
  line 74. \<open>listening\<close> says whether \<^verbatim>\<open>handleMessage\<close> is registered on the parent
  window, \<open>timerArmed\<close> whether the timeout is pending, \<open>watching\<close> whether the iframe
  monitor runs, \<open>outbox\<close> lists the handshake messages posted so far with their target
  origin, \<open>handshake\<close> is the state of the handlers. \<open>destroyed\<close> and \<open>callbacks\<close> are the
  destructor's state. \<open>cleanupLog\<close> is a history variable: every callback the destructor
  has run, with the error it was given.\<close>

record 'p Attempt =
  childOrigin' :: string
  originForSending :: string
  serializedMethods :: "string list"
  promise :: PromiseState
  destroyed :: bool
  callbacks :: "Cleanup list"
  cleanupLog :: "(Cleanup \<times> PenpalError option) list"
  listening :: bool
  timerArmed :: bool
  watching :: bool
  handshake :: 'p
  outbox :: "Posted list"

subsection \<open>The promise\<close>

text \<open>A call sender with a method named \<^verbatim>\<open>then\<close>: every entry of a call sender is a
  function, so the object is a thenable.\<close>

definition thenable :: "CallSender \<Rightarrow> bool" where
  "thenable callSender \<longleftrightarrow> ''then'' \<in> keySet callSender"

text \<open>\<^verbatim>\<open>resolve\<close> and \<^verbatim>\<open>reject\<close> of the executor (line 97), the functions of the native
  promise. They act on a pending promise only. \<^verbatim>\<open>resolve\<close> fulfils it with the value,
  unless the value is a thenable: then the promise is locked in to it. \<^verbatim>\<open>reject\<close>
  rejects it.\<close>

definition resolve :: "CallSender \<Rightarrow> 'p Attempt \<Rightarrow> 'p Attempt" where
  "resolve callSender s =
     (if promise s = Pending
      then s\<lparr>promise := (if thenable callSender then LockedIn callSender
                          else Fulfilled callSender)\<rparr>
      else s)"

definition reject :: "PenpalError \<Rightarrow> 'p Attempt \<Rightarrow> 'p Attempt" where
  "reject error s =
     (if promise s = Pending then s\<lparr>promise := Rejected error\<rparr> else s)"

subsection \<open>The destructor\<close>

text \<open>The callback of lines 127 to 136: remove the listener; reject if an error was given.\<close>

definition listenerCleanup :: "PenpalError option \<Rightarrow> 'p Attempt \<Rightarrow> 'p Attempt" where
  "listenerCleanup error s =
     (let s1 = s\<lparr>listening := False\<rparr>
      in case error of None \<Rightarrow> s1 | Some e \<Rightarrow> reject e s1)"

text \<open>Modelled from the spec: the cleanup that \<^verbatim>\<open>monitorIframeRemoval\<close> registers
  (section 4.4: the watch stops once the attempt ends).\<close>

definition iframeMonitorCleanup :: "PenpalError option \<Rightarrow> 'p Attempt \<Rightarrow> 'p Attempt" where
  "iframeMonitorCleanup error s = s\<lparr>watching := False\<rparr>"

text \<open>Calling a registered callback, and the destructor's loop body: call it with the cause
  and note the call in the history.\<close>

fun invoke :: "Cleanup \<Rightarrow> PenpalError option \<Rightarrow> 'p Attempt \<Rightarrow> 'p Attempt" where
  "invoke IframeMonitorCleanup error s = iframeMonitorCleanup error s"
| "invoke ListenerCleanup error s = listenerCleanup error s"

definition runCallback :: "PenpalError option \<Rightarrow> Cleanup \<Rightarrow> 'p Attempt \<Rightarrow> 'p Attempt" where
  "runCallback error c s =
     (let s1 = invoke c error s in s1\<lparr>cleanupLog := cleanupLog s1 @ [(c, error)]\<rparr>)"

text \<open>Modelled from the spec: \<^verbatim>\<open>onDestroy\<close> of \<^verbatim>\<open>createDestructor\<close> (section 4.1, the
  Lifecycle Manager) appends a callback to the ordered list.\<close>

definition onDestroy :: "Cleanup \<Rightarrow> 'p Attempt \<Rightarrow> 'p Attempt" where
  "onDestroy c s = s\<lparr>callbacks := callbacks s @ [c]\<rparr>"

text \<open>Modelled from the spec: \<^verbatim>\<open>destroy\<close> of \<^verbatim>\<open>createDestructor\<close> (section 4.1) is
  idempotent: the first call sets the flag and runs every registered callback, in
  registration order, with the cause (absent on an explicit close); later calls do
  nothing.\<close>

definition destroy :: "PenpalError option \<Rightarrow> 'p Attempt \<Rightarrow> 'p Attempt" where
  "destroy error s =
     (if destroyed s then s
      else fold (runCallback error) (callbacks s) (s\<lparr>destroyed := True\<rparr>))"

subsection \<open>The timeout guard and the iframe monitor\<close>

text \<open>Modelled from the spec: \<^verbatim>\<open>startConnectionTimeout(timeout, destroy)\<close> (section 4.3).
  An absent or non-positive timeout never fires; otherwise one fire is scheduled.\<close>

definition startConnectionTimeout :: "int option \<Rightarrow> 'p Attempt \<Rightarrow> 'p Attempt" where
  "startConnectionTimeout t s =
     s\<lparr>timerArmed := (case t of None \<Rightarrow> False | Some ms \<Rightarrow> 0 < ms)\<rparr>"

text \<open>Modelled from the spec: the function that \<^verbatim>\<open>startConnectionTimeout\<close> returns
  (section 4.3) cancels the pending fire, and does nothing when there is none.\<close>

definition stopConnectionTimeout :: "'p Attempt \<Rightarrow> 'p Attempt" where
  "stopConnectionTimeout s = s\<lparr>timerArmed := False\<rparr>"

text \<open>Modelled from the spec: the timer's callback (section 4.3), run when the timeout has
  elapsed. A pending fire calls \<^verbatim>\<open>destroy\<close> with the timeout error; a cancelled or absent
  one does nothing.\<close>

definition timeoutElapsed :: "'p Attempt \<Rightarrow> 'p Attempt" where
  "timeoutElapsed s =
     (if timerArmed s
      then destroy (Some (PenpalError ConnectionTimedOut)) (s\<lparr>timerArmed := False\<rparr>)
      else s)"

text \<open>Modelled from the spec: \<^verbatim>\<open>monitorIframeRemoval(iframe, destructor)\<close> (section 4.4)
  starts the watch and registers its own cleanup.\<close>

definition monitorIframeRemoval :: "'p Attempt \<Rightarrow> 'p Attempt" where
  "monitorIframeRemoval s = onDestroy IframeMonitorCleanup (s\<lparr>watching := True\<rparr>)"

text \<open>Modelled from the spec: the monitor's callback (section 4.4), run when the iframe is
  found gone. A running watch calls \<^verbatim>\<open>destroy\<close> with the liveness error.\<close>

definition iframeRemoved :: "'p Attempt \<Rightarrow> 'p Attempt" where
  "iframeRemoved s =
     (if watching s then destroy (Some (PenpalError PeerLost)) s else s)"

subsection \<open>The message listener\<close>

text \<open>\<^verbatim>\<open>handleSynMessage\<close>, the handler made at lines 81 to 86: a call of it changes the
  handlers' state and posts messages, nothing else.\<close>

definition handleSynMessage :: "'p Helpers \<Rightarrow> MessageEvent \<Rightarrow> 'p Attempt \<Rightarrow> 'p Attempt" where
  "handleSynMessage H event s =
     (case handleSynMessageFactory H (serializedMethods s) (childOrigin' s)
             (originForSending s) event (handshake s) of
        (p, posted) \<Rightarrow> s\<lparr>handshake := p, outbox := outbox s @ posted\<rparr>)"

text \<open>\<^verbatim>\<open>handleAckMessage\<close>, the handler made at lines 87 to 94: a call of it changes the
  handlers' state and returns a call sender or nothing.\<close>

definition handleAckMessage ::
  "'p Helpers \<Rightarrow> MessageEvent \<Rightarrow> 'p Attempt \<Rightarrow> CallSender option \<times> 'p Attempt" where
  "handleAckMessage H event s =
     (case handleAckMessageFactory H (serializedMethods s) (childOrigin' s)
             (originForSending s) event (handshake s) of
        (callSender, p) \<Rightarrow> (callSender, s\<lparr>handshake := p\<rparr>))"

text \<open>\<^verbatim>\<open>handleMessage\<close>, lines 99 to 120. An empty call sender is still an object, hence
  truthy: the test of line 114 fails only for \<^verbatim>\<open>undefined\<close>.\<close>

definition handleMessage :: "'p Helpers \<Rightarrow> MessageEvent \<Rightarrow> 'p Attempt \<Rightarrow> 'p Attempt" where
  "handleMessage H event s =
     (case data event of
        None \<Rightarrow> s
      | Some d \<Rightarrow>
          if penpal d = Some Syn then handleSynMessage H event s
          else if penpal d = Some Ack then
            (case handleAckMessage H event s of
               (Some callSender, s1) \<Rightarrow> resolve callSender (stopConnectionTimeout s1)
             | (None, s1) \<Rightarrow> s1)
          else s)"

text \<open>The Ack branch of \<^verbatim>\<open>handleMessage\<close> (lines 110 to 118) on its own, with the pair
  that \<open>handleAckMessage\<close> returns taken apart by projections.\<close>

definition ackBranch :: "'p Helpers \<Rightarrow> MessageEvent \<Rightarrow> 'p Attempt \<Rightarrow> 'p Attempt" where
  "ackBranch H event s =
     (case fst (handleAckMessage H event s) of
        Some callSender \<Rightarrow>
          resolve callSender (stopConnectionTimeout (snd (handleAckMessage H event s)))
      | None \<Rightarrow> snd (handleAckMessage H event s))"

subsection \<open>Establishment\<close>

text \<open>Modelled from the spec: \<^verbatim>\<open>serializeMethods\<close> (section 4.2): the names only.\<close>

definition serializeMethods :: "(string \<times> 'f) list \<Rightarrow> string list" where
  "serializeMethods ms = map fst ms"

text \<open>Lines 71 to 74. \<^verbatim>\<open>!childOrigin\<close> holds of \<^verbatim>\<open>undefined\<close> and of the empty string.
  \<open>Inl\<close> is an exception thrown out of \<^verbatim>\<open>connectToChild\<close>: the call of line 72 is
  not inside any \<^verbatim>\<open>try\<close>.\<close>

definition resolveChildOrigin :: "'p Helpers \<Rightarrow> 'f Options \<Rightarrow> PenpalError + string" where
  "resolveChildOrigin H options =
     (if childOrigin options = None \<or> childOrigin options = Some []
      then (case validateIframeHasSrcOrSrcDoc H (iframe options) of
              Some e \<Rightarrow> Inl e
            | None \<Rightarrow> Inr (getOriginFromSrc H (src (iframe options))))
      else Inr (case childOrigin options of Some given \<Rightarrow> given | None \<Rightarrow> []))"

text \<open>The closure before the executor runs (lines 67 to 94).\<close>

definition newAttempt :: "'p Helpers \<Rightarrow> string \<Rightarrow> string list \<Rightarrow> 'p Attempt" where
  "newAttempt H expected names =
     \<lparr>childOrigin' = expected,
      originForSending = (if expected = ''null'' then ''*'' else expected),
      serializedMethods = names,
      promise = Pending, destroyed = False, callbacks = [], cleanupLog = [],
      listening = False, timerArmed = False, watching = False,
      handshake = handshakeStart H, outbox = []\<rparr>"

text \<open>The executor, lines 97 to 137, in the order of the source: start the timeout, add the
  listener, start the iframe monitor, register the cleanup.\<close>

definition executor :: "int option \<Rightarrow> 'p Attempt \<Rightarrow> 'p Attempt" where
  "executor t s =
     onDestroy ListenerCleanup
       (monitorIframeRemoval ((startConnectionTimeout t s)\<lparr>listening := True\<rparr>))"

text \<open>\<^verbatim>\<open>connectToChild\<close>, lines 55 to 147: either an exception, or the handle, which is
  the closure.\<close>

definition connectToChild :: "'p Helpers \<Rightarrow> 'f Options \<Rightarrow> PenpalError + 'p Attempt" where
  "connectToChild H options =
     (case resolveChildOrigin H options of
        Inl e \<Rightarrow> Inl e
      | Inr expected \<Rightarrow>
          Inr (executor (timeout options)
                 (newAttempt H expected
                    (serializeMethods (case methods options of None \<Rightarrow> [] | Some ms \<Rightarrow> ms)))))"

text \<open>The handle's \<^verbatim>\<open>destroy\<close>, lines 142 to 145: whatever the consumer passes, the
  destructor is called with no argument.\<close>

definition handleDestroy :: "'a option \<Rightarrow> 'p Attempt \<Rightarrow> 'p Attempt" where
  "handleDestroy arg s = destroy None s"

subsection \<open>Events\<close>

text \<open>What can happen to an attempt after \<^verbatim>\<open>connectToChild\<close> has returned: a message
  event on the parent window, the expiry of the timeout, the removal of the iframe, a call
  of the handle's \<^verbatim>\<open>destroy\<close>, with an error as argument or with none. A message event
  reaches \<^verbatim>\<open>handleMessage\<close> only while the listener is registered.\<close>

datatype Event =
  Message MessageEvent | TimeoutElapsed | IframeRemoved | Destroy "PenpalError option"

fun step :: "'p Helpers \<Rightarrow> Event \<Rightarrow> 'p Attempt \<Rightarrow> 'p Attempt" where
  "step H (Message event) s = (if listening s then handleMessage H event s else s)"
| "step H TimeoutElapsed s = timeoutElapsed s"
| "step H IframeRemoved s = iframeRemoved s"
| "step H (Destroy arg) s = handleDestroy arg s"

definition run :: "'p Helpers \<Rightarrow> Event list \<Rightarrow> 'p Attempt \<Rightarrow> 'p Attempt" where
  "run H events s = fold (step H) events s"

subsection \<open>The helpers as the specification describes them\<close>

text \<open>Modelled from the spec: \<^verbatim>\<open>validateIframeHasSrcOrSrcDoc\<close> (section 4.6, step 1).
  An iframe with neither \<^verbatim>\<open>src\<close> nor \<^verbatim>\<open>srcdoc\<close> carries no determinable location:
  the validation fails with \<open>PrincipalUnresolved\<close>.\<close>

definition specValidateIframeHasSrcOrSrcDoc :: "Iframe \<Rightarrow> PenpalError option" where
  "specValidateIframeHasSrcOrSrcDoc f =
     (if src f = [] \<and> srcdoc f = [] then Some (PenpalError PrincipalUnresolved) else None)"

text \<open>Modelled from the spec: the handler made by \<^verbatim>\<open>handleSynMessageFactory\<close>
  (section 4.5). A Syn from another origin than the expected one is discarded. Otherwise
  an Ack carrying the parent's method names is posted to \<open>originForSending\<close>, and the state
  machine leaves \<open>AwaitingSyn\<close> for \<open>AwaitingAck\<close>.\<close>

definition specHandleSynMessageFactory ::
  "string list \<Rightarrow> string \<Rightarrow> string \<Rightarrow> MessageEvent \<Rightarrow> HandshakeState
     \<Rightarrow> HandshakeState \<times> Posted list" where
  "specHandleSynMessageFactory names expected target event p =
     (if origin event \<noteq> expected then (p, [])
      else (if p = AwaitingSyn then AwaitingAck else p, [(AckMessage names, target)]))"

text \<open>The method names an event carries (\<^verbatim>\<open>event.data.methodNames\<close>).\<close>

definition eventMethodNames :: "MessageEvent \<Rightarrow> string list" where
  "eventMethodNames event = (case data event of None \<Rightarrow> [] | Some d \<Rightarrow> methodNames d)"

text \<open>Modelled from the spec: building the remote-call interface (section 4.5): one stub
  per method name, each forwarding to the established origin.\<close>

definition buildCallSender :: "string \<Rightarrow> string list \<Rightarrow> CallSender" where
  "buildCallSender target names = map (\<lambda>n. (n, Stub n target)) names"

text \<open>Modelled from the spec: the handler made by \<^verbatim>\<open>handleAckMessageFactory\<close>
  (section 4.5). An Ack from another origin is discarded; an Ack after \<open>Established\<close> is
  ignored; otherwise the remote-call interface is built from the message's method names
  and the state becomes \<open>Established\<close>.\<close>

definition specHandleAckMessageFactory ::
  "string list \<Rightarrow> string \<Rightarrow> string \<Rightarrow> MessageEvent \<Rightarrow> HandshakeState
     \<Rightarrow> CallSender option \<times> HandshakeState" where
  "specHandleAckMessageFactory names expected target event p =
     (if origin event \<noteq> expected then (None, p)
      else if p = Established then (None, p)
      else (Some (buildCallSender target (eventMethodNames event)), Established))"

text \<open>Modelled from the spec: the helpers as sections 4.5 and 4.6 describe them, over any
  \<^verbatim>\<open>getOriginFromSrc\<close>. The state machine starts in \<open>AwaitingSyn\<close> (section 4.5).\<close>

definition specified :: "(string \<Rightarrow> string) \<Rightarrow> HandshakeState Helpers" where
  "specified g =
     \<lparr>getOriginFromSrc = g,
      validateIframeHasSrcOrSrcDoc = specValidateIframeHasSrcOrSrcDoc,
      handshakeStart = AwaitingSyn,
      handleSynMessageFactory = specHandleSynMessageFactory,
      handleAckMessageFactory = specHandleAckMessageFactory\<rparr>"

subsection \<open>Vocabulary of the properties\<close>

text \<open>The protocol tag an event carries, if any: \<^verbatim>\<open>event.data.penpal\<close>, absent when the
  data is falsy or has no such field.\<close>

definition tagOf :: "MessageEvent \<Rightarrow> MessageType option" where
  "tagOf event = (case data event of None \<Rightarrow> None | Some d \<Rightarrow> penpal d)"

text \<open>An Ack sent by the origin \<open>p\<close>, and a list of messages with no such Ack in it.\<close>

definition isAck :: "string \<Rightarrow> MessageEvent \<Rightarrow> bool" where
  "isAck p event \<longleftrightarrow> origin event = p \<and> tagOf event = Some Ack"

primrec noAck :: "string \<Rightarrow> MessageEvent list \<Rightarrow> bool" where
  "noAck p [] = True"
| "noAck p (m # ms) = (\<not> isAck p m \<and> noAck p ms)"

text \<open>The key set of the interface a promise is fulfilled with; \<open>None\<close> for a promise that
  is pending or rejected.\<close>

definition fulfilledKeys :: "PromiseState \<Rightarrow> string set option" where
  "fulfilledKeys p = (case p of Fulfilled callSender \<Rightarrow> Some (keySet callSender) | _ \<Rightarrow> None)"

text \<open>The value a promise has been resolved with: the one it is fulfilled with or locked in
  to; \<open>None\<close> for a promise that is pending or rejected.\<close>

definition resolution :: "PromiseState \<Rightarrow> CallSender option" where
  "resolution p =
     (case p of
        Fulfilled callSender \<Rightarrow> Some callSender
      | LockedIn callSender \<Rightarrow> Some callSender
      | _ \<Rightarrow> None)"

text \<open>What holds of every attempt that \<^verbatim>\<open>connectToChild\<close> has returned, whatever the
  helpers and whatever happened since: the two callbacks are registered; before
  destruction the listener and the monitor are on, no callback has run, the promise is
  not rejected, and a resolved promise has stopped the timeout; after destruction the
  listener and the monitor are off and the callbacks have run once each.\<close>

definition wired :: "'p Attempt \<Rightarrow> bool" where
  "wired s \<longleftrightarrow>
     callbacks s = [IframeMonitorCleanup, ListenerCleanup] \<and>
     (if destroyed s
      then \<not> listening s \<and> \<not> watching s \<and> map fst (cleanupLog s) = callbacks s
      else listening s \<and> watching s \<and> cleanupLog s = [] \<and>
           (case promise s of
              Pending \<Rightarrow> True
            | Fulfilled callSender \<Rightarrow> \<not> timerArmed s
            | Rejected e \<Rightarrow> False
            | LockedIn callSender \<Rightarrow> \<not> timerArmed s))"

text \<open>What holds in addition with the helpers of the specification: before destruction, the
  promise is pending exactly as long as the state machine has not reached
  \<open>Established\<close>.\<close>

definition inStep :: "HandshakeState Attempt \<Rightarrow> bool" where
  "inStep s \<longleftrightarrow> destroyed s \<or> (promise s = Pending) = (handshake s \<noteq> Established)"

subsection \<open>Sample inputs\<close>

text \<open>An origin resolver that knows one child, an iframe pointing at it, and the attempt
  that \<^verbatim>\<open>connectToChild\<close> makes of them with a timeout of 500 ms and one local method.\<close>

definition sampleGetOrigin :: "string \<Rightarrow> string" where
  "sampleGetOrigin url = ''https://child.example''"

definition sampleOptions :: "nat Options" where
  "sampleOptions =
     \<lparr>iframe = \<lparr>src = ''https://child.example/app'', srcdoc = []\<rparr>,
      methods = Some [(''add'', 0)], childOrigin = None, timeout = Some 500\<rparr>"

definition sampleAttempt :: "HandshakeState Attempt" where
  "sampleAttempt =
     \<lparr>childOrigin' = ''https://child.example'',
      originForSending = ''https://child.example'',
      serializedMethods = [''add''],
      promise = Pending, destroyed = False,
      callbacks = [IframeMonitorCleanup, ListenerCleanup], cleanupLog = [],
      listening = True, timerArmed = True, watching = True,
      handshake = AwaitingSyn, outbox = []\<rparr>"

text \<open>Options with no child origin and an iframe that has neither \<^verbatim>\<open>src\<close> nor
  \<^verbatim>\<open>srcdoc\<close>; the same with an empty string as child origin.\<close>

definition bareOptions :: "nat Options" where
  "bareOptions =
     \<lparr>iframe = \<lparr>src = [], srcdoc = []\<rparr>,
      methods = None, childOrigin = None, timeout = None\<rparr>"

definition emptyOriginOptions :: "nat Options" where
  "emptyOriginOptions =
     \<lparr>iframe = \<lparr>src = [], srcdoc = []\<rparr>,
      methods = Some [(''add'', 0)], childOrigin = Some [], timeout = Some 2000\<rparr>"

text \<open>Message events: a Syn and two Acks from the child, an Ack of the child that
  advertises a method named \<^verbatim>\<open>then\<close>, an Ack from elsewhere, a call message, and an event
  with no data.\<close>

definition synEvent :: MessageEvent where
  "synEvent = \<lparr>data = Some \<lparr>penpal = Some Syn, methodNames = []\<rparr>,
               origin = ''https://child.example''\<rparr>"

definition ackMultiply :: MessageEvent where
  "ackMultiply = \<lparr>data = Some \<lparr>penpal = Some Ack, methodNames = [''multiply'']\<rparr>,
                  origin = ''https://child.example''\<rparr>"

definition ackDivide :: MessageEvent where
  "ackDivide = \<lparr>data = Some \<lparr>penpal = Some Ack, methodNames = [''divide'']\<rparr>,
                origin = ''https://child.example''\<rparr>"

definition ackThen :: MessageEvent where
  "ackThen = \<lparr>data = Some \<lparr>penpal = Some Ack, methodNames = [''then'']\<rparr>,
              origin = ''https://child.example''\<rparr>"

definition foreignAck :: MessageEvent where
  "foreignAck = \<lparr>data = Some \<lparr>penpal = Some Ack, methodNames = [''steal'']\<rparr>,
                 origin = ''https://other.example''\<rparr>"

definition callEvent :: MessageEvent where
  "callEvent = \<lparr>data = Some \<lparr>penpal = Some (Other ''call''), methodNames = []\<rparr>,
                origin = ''https://child.example''\<rparr>"

definition emptyEvent :: MessageEvent where
  "emptyEvent = \<lparr>data = None, origin = ''https://child.example''\<rparr>"

section \<open>Lemmas\<close>

subsection \<open>The destructor's loop\<close>

lemmas cleanup_defs =
  runCallback_def listenerCleanup_def iframeMonitorCleanup_def reject_def Let_def

lemma runCallback_frame:
  "destroyed (runCallback e c s) = destroyed s"
  "outbox (runCallback e c s) = outbox s"
  "handshake (runCallback e c s) = handshake s"
  "callbacks (runCallback e c s) = callbacks s"
  "timerArmed (runCallback e c s) = timerArmed s"
  "childOrigin' (runCallback e c s) = childOrigin' s"
  "originForSending (runCallback e c s) = originForSending s"
  "serializedMethods (runCallback e c s) = serializedMethods s"
  "cleanupLog (runCallback e c s) = cleanupLog s @ [(c, e)]"
  by (cases c; cases e; simp add: cleanup_defs)+

lemma runCallback_promise_None: "promise (runCallback None c s) = promise s"
  by (cases c) (simp_all add: cleanup_defs)

lemma runCallback_promise_settled:
  "promise s \<noteq> Pending \<Longrightarrow> promise (runCallback e c s) = promise s"
  by (cases c; cases e) (simp_all add: cleanup_defs)

lemma fold_runCallback_frame:
  "destroyed (fold (runCallback e) cs s) = destroyed s"
  "outbox (fold (runCallback e) cs s) = outbox s"
  "handshake (fold (runCallback e) cs s) = handshake s"
  "callbacks (fold (runCallback e) cs s) = callbacks s"
  "timerArmed (fold (runCallback e) cs s) = timerArmed s"
  "childOrigin' (fold (runCallback e) cs s) = childOrigin' s"
  "originForSending (fold (runCallback e) cs s) = originForSending s"
  "serializedMethods (fold (runCallback e) cs s) = serializedMethods s"
  "cleanupLog (fold (runCallback e) cs s) = cleanupLog s @ map (\<lambda>c. (c, e)) cs"
  by (induction cs arbitrary: s; simp add: runCallback_frame)+

lemma fold_runCallback_promise_None: "promise (fold (runCallback None) cs s) = promise s"
  by (induction cs arbitrary: s) (simp_all add: runCallback_promise_None)

lemma fold_runCallback_promise_settled:
  "promise s \<noteq> Pending \<Longrightarrow> promise (fold (runCallback e) cs s) = promise s"
  by (induction cs arbitrary: s) (simp_all add: runCallback_promise_settled)

lemma destroy_promise_settled:
  "promise s \<noteq> Pending \<Longrightarrow> promise (destroy e s) = promise s"
  by (simp add: destroy_def fold_runCallback_promise_settled)

lemma destroy_promise_None: "promise (destroy None s) = promise s"
  by (simp add: destroy_def fold_runCallback_promise_None)

lemma destroy_destroyed: "destroyed (destroy e s)"
  by (simp add: destroy_def fold_runCallback_frame)

lemma destroy_idem: "destroyed s \<Longrightarrow> destroy e s = s"
  by (simp add: destroy_def)

lemma destroy_handshake: "handshake (destroy e s) = handshake s"
  by (simp add: destroy_def fold_runCallback_frame)

subsection \<open>The message listener, whatever the helpers\<close>

lemma handleSynMessage_frame:
  "promise (handleSynMessage H ev s) = promise s"
  "destroyed (handleSynMessage H ev s) = destroyed s"
  "listening (handleSynMessage H ev s) = listening s"
  "timerArmed (handleSynMessage H ev s) = timerArmed s"
  "watching (handleSynMessage H ev s) = watching s"
  "cleanupLog (handleSynMessage H ev s) = cleanupLog s"
  "callbacks (handleSynMessage H ev s) = callbacks s"
  "childOrigin' (handleSynMessage H ev s) = childOrigin' s"
  "originForSending (handleSynMessage H ev s) = originForSending s"
  "serializedMethods (handleSynMessage H ev s) = serializedMethods s"
  by (simp_all add: handleSynMessage_def split: prod.splits)

lemma handleAckMessage_frame:
  "promise (snd (handleAckMessage H ev s)) = promise s"
  "destroyed (snd (handleAckMessage H ev s)) = destroyed s"
  "listening (snd (handleAckMessage H ev s)) = listening s"
  "timerArmed (snd (handleAckMessage H ev s)) = timerArmed s"
  "watching (snd (handleAckMessage H ev s)) = watching s"
  "cleanupLog (snd (handleAckMessage H ev s)) = cleanupLog s"
  "callbacks (snd (handleAckMessage H ev s)) = callbacks s"
  "childOrigin' (snd (handleAckMessage H ev s)) = childOrigin' s"
  "originForSending (snd (handleAckMessage H ev s)) = originForSending s"
  "serializedMethods (snd (handleAckMessage H ev s)) = serializedMethods s"
  "outbox (snd (handleAckMessage H ev s)) = outbox s"
  by (simp_all add: handleAckMessage_def split: prod.splits)

lemma handleMessage_cases:
  "handleMessage H ev s =
     (if tagOf ev = Some Syn then handleSynMessage H ev s
      else if tagOf ev = Some Ack then ackBranch H ev s
      else s)"
  by (cases "handleAckMessage H ev s")
     (auto simp: handleMessage_def tagOf_def ackBranch_def split: option.splits)

lemma ackBranch_frame:
  "destroyed (ackBranch H ev s) = destroyed s"
  "listening (ackBranch H ev s) = listening s"
  "watching (ackBranch H ev s) = watching s"
  "cleanupLog (ackBranch H ev s) = cleanupLog s"
  "callbacks (ackBranch H ev s) = callbacks s"
  "childOrigin' (ackBranch H ev s) = childOrigin' s"
  "originForSending (ackBranch H ev s) = originForSending s"
  "serializedMethods (ackBranch H ev s) = serializedMethods s"
  "outbox (ackBranch H ev s) = outbox s"
  by (simp_all add: ackBranch_def resolve_def stopConnectionTimeout_def handleAckMessage_frame
      split: option.splits)

lemma ackBranch_promise:
  "promise (ackBranch H ev s) =
     (case fst (handleAckMessage H ev s) of
        Some callSender \<Rightarrow>
          (if promise s = Pending
           then (if thenable callSender then LockedIn callSender else Fulfilled callSender)
           else promise s)
      | None \<Rightarrow> promise s)"
  by (simp add: ackBranch_def resolve_def stopConnectionTimeout_def handleAckMessage_frame
      split: option.splits)

lemma ackBranch_timerArmed:
  "timerArmed (ackBranch H ev s) =
     (case fst (handleAckMessage H ev s) of
        Some callSender \<Rightarrow> False
      | None \<Rightarrow> timerArmed s)"
  by (simp add: ackBranch_def resolve_def stopConnectionTimeout_def handleAckMessage_frame
      split: option.splits)

lemma handleMessage_frame:
  "destroyed (handleMessage H ev s) = destroyed s"
  "listening (handleMessage H ev s) = listening s"
  "watching (handleMessage H ev s) = watching s"
  "cleanupLog (handleMessage H ev s) = cleanupLog s"
  "callbacks (handleMessage H ev s) = callbacks s"
  "childOrigin' (handleMessage H ev s) = childOrigin' s"
  "originForSending (handleMessage H ev s) = originForSending s"
  "serializedMethods (handleMessage H ev s) = serializedMethods s"
  by (simp_all add: handleMessage_cases handleSynMessage_frame ackBranch_frame)

lemma handleMessage_untagged:
  "tagOf ev \<noteq> Some Syn \<Longrightarrow> tagOf ev \<noteq> Some Ack \<Longrightarrow> handleMessage H ev s = s"
  by (simp add: handleMessage_cases)

lemma handleMessage_syn:
  "tagOf ev = Some Syn \<Longrightarrow> handleMessage H ev s = handleSynMessage H ev s"
  by (simp add: handleMessage_cases)

subsection \<open>A settled promise stays as it is, whatever the helpers\<close>

lemma handleMessage_promise_settled:
  "promise s \<noteq> Pending \<Longrightarrow> promise (handleMessage H ev s) = promise s"
  by (simp add: handleMessage_cases handleSynMessage_frame ackBranch_promise
      split: option.splits)

lemma step_promise_settled:
  "promise s \<noteq> Pending \<Longrightarrow> promise (step H e s) = promise s"
  by (cases e) (simp_all add: handleMessage_promise_settled timeoutElapsed_def iframeRemoved_def
      handleDestroy_def destroy_promise_settled)

lemma run_append: "run H (xs @ ys) s = run H ys (run H xs s)"
  by (simp add: run_def)

lemma run_promise_settled:
  "promise s \<noteq> Pending \<Longrightarrow> promise (run H t s) = promise s"
  unfolding run_def by (induction t arbitrary: s) (simp_all add: step_promise_settled)

subsection \<open>What never changes\<close>

lemma step_frame:
  "childOrigin' (step H e s) = childOrigin' s"
  "originForSending (step H e s) = originForSending s"
  "serializedMethods (step H e s) = serializedMethods s"
  "callbacks (step H e s) = callbacks s"
  by (cases e; simp add: handleMessage_frame timeoutElapsed_def iframeRemoved_def
      handleDestroy_def destroy_def fold_runCallback_frame)+

lemma run_frame:
  "childOrigin' (run H t s) = childOrigin' s"
  "originForSending (run H t s) = originForSending s"
  "serializedMethods (run H t s) = serializedMethods s"
  "callbacks (run H t s) = callbacks s"
  unfolding run_def by (induction t arbitrary: s; simp add: step_frame)+

subsection \<open>The invariant, whatever the helpers\<close>

lemma connect_wired:
  "connectToChild H options = Inr s0 \<Longrightarrow> wired s0"
  by (auto simp: connectToChild_def executor_def monitorIframeRemoval_def onDestroy_def
      startConnectionTimeout_def newAttempt_def wired_def split: sum.splits)

lemma connect_initial:
  assumes "connectToChild H options = Inr s0"
  shows "\<not> destroyed s0" "promise s0 = Pending" "outbox s0 = []"
    "handshake s0 = handshakeStart H"
    "timerArmed s0 = (case timeout options of None \<Rightarrow> False | Some ms \<Rightarrow> 0 < ms)"
  using assms
  by (auto simp: connectToChild_def executor_def monitorIframeRemoval_def onDestroy_def
      startConnectionTimeout_def newAttempt_def split: sum.splits)

lemma wired_destroy: "wired s \<Longrightarrow> wired (destroy e s)"
  by (cases e) (auto simp: wired_def destroy_def cleanup_defs split: PromiseState.splits)

lemma wired_handleMessage:
  assumes "wired s" "listening s"
  shows "wired (handleMessage H ev s)"
proof -
  have nd: "\<not> destroyed s" using assms by (auto simp: wired_def split: if_splits)
  have p: "case promise (handleMessage H ev s) of
             Pending \<Rightarrow> True
           | Fulfilled callSender \<Rightarrow> \<not> timerArmed (handleMessage H ev s)
           | Rejected e \<Rightarrow> False
           | LockedIn callSender \<Rightarrow> \<not> timerArmed (handleMessage H ev s)"
    using assms(1) nd
    by (auto simp: wired_def handleMessage_cases handleSynMessage_frame ackBranch_promise
        ackBranch_timerArmed split: option.splits PromiseState.splits)
  show ?thesis using assms(1) nd p by (simp add: wired_def handleMessage_frame)
qed

lemma wired_step: "wired s \<Longrightarrow> wired (step H e s)"
proof (cases e)
  case (Message ev)
  assume "wired s"
  then show ?thesis using Message by (simp add: wired_handleMessage)
next
  case TimeoutElapsed
  assume w: "wired s"
  have "wired (s\<lparr>timerArmed := False\<rparr>)"
    using w by (auto simp: wired_def split: PromiseState.splits if_splits)
  then show ?thesis using TimeoutElapsed w by (simp add: timeoutElapsed_def wired_destroy)
next
  case IframeRemoved
  assume "wired s"
  then show ?thesis using IframeRemoved by (simp add: iframeRemoved_def wired_destroy)
next
  case (Destroy a)
  assume "wired s"
  then show ?thesis using Destroy by (simp add: handleDestroy_def wired_destroy)
qed

lemma wired_run: "wired s \<Longrightarrow> wired (run H t s)"
  unfolding run_def by (induction t arbitrary: s) (simp_all add: wired_step)

subsection \<open>After destruction, whatever the helpers\<close>

lemma destroyed_step:
  assumes "wired s" "destroyed s"
  shows "destroyed (step H e s)" "promise (step H e s) = promise s"
    "outbox (step H e s) = outbox s" "handshake (step H e s) = handshake s"
    "cleanupLog (step H e s) = cleanupLog s" "\<not> listening (step H e s)"
  using assms
  by (cases e; simp add: wired_def timeoutElapsed_def iframeRemoved_def handleDestroy_def
      destroy_def)+

lemma destroyed_run:
  assumes "wired s" "destroyed s"
  shows "destroyed (run H t s) \<and> promise (run H t s) = promise s
    \<and> outbox (run H t s) = outbox s \<and> handshake (run H t s) = handshake s
    \<and> cleanupLog (run H t s) = cleanupLog s \<and> \<not> listening (run H t s)"
  using assms unfolding run_def
proof (induction t arbitrary: s)
  case Nil
  then show ?case by (simp add: wired_def)
next
  case (Cons e t)
  have "wired (step H e s)" "destroyed (step H e s)"
    using Cons.prems by (simp_all add: wired_step destroyed_step)
  from Cons.IH[OF this] show ?case
    using Cons.prems by (simp add: destroyed_step)
qed

subsection \<open>Only an Ack resolves, whatever the helpers\<close>

lemma runCallback_resolution:
  "resolution (promise (runCallback e c s)) = Some cs \<Longrightarrow> resolution (promise s) = Some cs"
  by (cases c; cases e) (auto simp: cleanup_defs resolution_def split: if_splits)

lemma fold_runCallback_resolution:
  "resolution (promise (fold (runCallback e) cbs s)) = Some cs
    \<Longrightarrow> resolution (promise s) = Some cs"
proof (induction cbs arbitrary: s)
  case Nil
  then show ?case by simp
next
  case (Cons c cbs)
  then have "resolution (promise (runCallback e c s)) = Some cs" by simp
  then show ?case by (rule runCallback_resolution)
qed

lemma destroy_resolution:
  "resolution (promise (destroy e s)) = Some cs \<Longrightarrow> resolution (promise s) = Some cs"
  by (cases "destroyed s") (auto simp: destroy_def dest: fold_runCallback_resolution)

lemma resolved_only_by_ack:
  assumes "promise s = Pending" "resolution (promise (step H e s)) = Some cs"
  shows "\<exists>m. e = Message m \<and> tagOf m = Some Ack
           \<and> fst (handleAckMessage H m s) = Some cs"
proof (cases e)
  case (Message m)
  have l: "listening s" using assms Message by (auto simp: resolution_def split: if_splits)
  then have f: "resolution (promise (handleMessage H m s)) = Some cs"
    using assms Message by simp
  have "tagOf m = Some Ack \<and> fst (handleAckMessage H m s) = Some cs"
    using f assms(1)
    by (auto simp: handleMessage_cases handleSynMessage_frame ackBranch_promise resolution_def
        split: option.splits if_splits)
  then show ?thesis using Message by simp
next
  case TimeoutElapsed
  then have "resolution (promise s) = Some cs"
    using assms(2)
    by (auto simp: timeoutElapsed_def split: if_splits dest: destroy_resolution)
  then show ?thesis using assms(1) by (simp add: resolution_def)
next
  case IframeRemoved
  then have "resolution (promise s) = Some cs"
    using assms(2)
    by (auto simp: iframeRemoved_def split: if_splits dest: destroy_resolution)
  then show ?thesis using assms(1) by (simp add: resolution_def)
next
  case (Destroy a)
  then show ?thesis
    using assms by (simp add: handleDestroy_def destroy_promise_None resolution_def)
qed

subsection \<open>The message handler with the helpers of the specification\<close>

lemma keySet_buildCallSender: "keySet (buildCallSender target names) = set names"
  by (force simp: keySet_def buildCallSender_def)

lemma specified_sel:
  "getOriginFromSrc (specified g) = g"
  "validateIframeHasSrcOrSrcDoc (specified g) = specValidateIframeHasSrcOrSrcDoc"
  "handshakeStart (specified g) = AwaitingSyn"
  "handleSynMessageFactory (specified g) = specHandleSynMessageFactory"
  "handleAckMessageFactory (specified g) = specHandleAckMessageFactory"
  by (simp_all add: specified_def)

lemma spec_handleSynMessage:
  "handleSynMessage (specified g) ev s =
     (if origin ev \<noteq> childOrigin' s then s
      else s\<lparr>handshake := (if handshake s = AwaitingSyn then AwaitingAck else handshake s),
             outbox := outbox s @ [(AckMessage (serializedMethods s), originForSending s)]\<rparr>)"
  by (simp add: handleSynMessage_def specified_sel specHandleSynMessageFactory_def)

lemma spec_handleAckMessage:
  "handleAckMessage (specified g) ev s =
     (if origin ev \<noteq> childOrigin' s \<or> handshake s = Established then (None, s)
      else (Some (buildCallSender (originForSending s) (eventMethodNames ev)),
            s\<lparr>handshake := Established\<rparr>))"
  by (simp add: handleAckMessage_def specified_sel specHandleAckMessageFactory_def)

lemma spec_ackBranch:
  "ackBranch (specified g) ev s =
     (if origin ev \<noteq> childOrigin' s \<or> handshake s = Established then s
      else resolve (buildCallSender (originForSending s) (eventMethodNames ev))
             (s\<lparr>handshake := Established, timerArmed := False\<rparr>))"
  by (simp add: ackBranch_def spec_handleAckMessage stopConnectionTimeout_def)

lemmas spec_handler_defs =
  handleMessage_cases spec_handleSynMessage spec_ackBranch

lemma spec_handleMessage_foreign:
  "origin ev \<noteq> childOrigin' s \<Longrightarrow> tagOf ev = Some Syn \<or> tagOf ev = Some Ack
    \<Longrightarrow> handleMessage (specified g) ev s = s"
  by (auto simp: spec_handler_defs)

lemma spec_handleMessage_syn:
  assumes "tagOf ev = Some Syn" "origin ev = childOrigin' s"
  shows "handleMessage (specified g) ev s =
     s\<lparr>handshake := (if handshake s = AwaitingSyn then AwaitingAck else handshake s),
        outbox := outbox s @ [(AckMessage (serializedMethods s), originForSending s)]\<rparr>"
  using assms by (simp add: spec_handler_defs)

lemma spec_handleMessage_ack:
  assumes "isAck (childOrigin' s) ev"
  shows "handleMessage (specified g) ev s =
     (if handshake s = Established then s
      else resolve (buildCallSender (originForSending s) (eventMethodNames ev))
             (s\<lparr>handshake := Established, timerArmed := False\<rparr>))"
  using assms by (simp add: spec_handler_defs isAck_def)

lemma spec_handleMessage_not_ack:
  assumes "\<not> isAck (childOrigin' s) ev"
  shows "promise (handleMessage (specified g) ev s) = promise s"
    "destroyed (handleMessage (specified g) ev s) = destroyed s"
    "timerArmed (handleMessage (specified g) ev s) = timerArmed s"
    "(handshake (handleMessage (specified g) ev s) = Established) = (handshake s = Established)"
  using assms
  by (auto simp: spec_handler_defs isAck_def resolve_def)

lemma inStep_handleMessage:
  assumes "wired s" "inStep s" "listening s"
  shows "inStep (handleMessage (specified g) ev s)"
proof (cases "isAck (childOrigin' s) ev")
  case True
  have "\<not> destroyed s" using assms(1,3) by (auto simp: wired_def split: if_splits)
  then show ?thesis
    using assms(2) by (auto simp: spec_handleMessage_ack[OF True] inStep_def resolve_def)
next
  case False
  then show ?thesis using assms(2) by (simp add: inStep_def spec_handleMessage_not_ack)
qed

lemma inStep_step:
  assumes "wired s" "inStep s"
  shows "inStep (step (specified g) e s)"
proof (cases e)
  case (Message ev)
  then show ?thesis using assms by (simp add: inStep_handleMessage)
next
  case TimeoutElapsed
  then show ?thesis using assms(2)
    by (simp add: timeoutElapsed_def inStep_def destroy_destroyed)
next
  case IframeRemoved
  then show ?thesis using assms(2)
    by (simp add: iframeRemoved_def inStep_def destroy_destroyed)
next
  case (Destroy a)
  then show ?thesis by (simp add: handleDestroy_def inStep_def destroy_destroyed)
qed

lemma inStep_run:
  "wired s \<Longrightarrow> inStep s \<Longrightarrow> inStep (run (specified g) t s)"
  unfolding run_def
  by (induction t arbitrary: s) (simp_all add: wired_step inStep_step)

lemma connect_inStep:
  "connectToChild (specified g) options = Inr s0 \<Longrightarrow> inStep s0"
  using connect_initial(2,4)[of "specified g" options s0]
  by (simp add: inStep_def specified_sel)

lemma awaiting_messages:
  assumes "wired s" "\<not> destroyed s" "promise s = Pending" "noAck (childOrigin' s) msgs"
  shows "wired (run (specified g) (map Message msgs) s)
     \<and> \<not> destroyed (run (specified g) (map Message msgs) s)
     \<and> promise (run (specified g) (map Message msgs) s) = Pending
     \<and> timerArmed (run (specified g) (map Message msgs) s) = timerArmed s"
  using assms
proof (induction msgs arbitrary: s)
  case Nil
  then show ?case by (simp add: run_def)
next
  case (Cons m msgs)
  let ?s = "handleMessage (specified g) m s"
  have l: "listening s" using Cons.prems by (simp add: wired_def)
  have n: "\<not> isAck (childOrigin' s) m" "noAck (childOrigin' s) msgs"
    using Cons.prems by simp_all
  have st: "step (specified g) (Message m) s = ?s" using l by simp
  have w: "wired ?s" using Cons.prems l by (simp add: wired_handleMessage)
  have co: "childOrigin' ?s = childOrigin' s"
    using step_frame(1)[of "specified g" "Message m" s] st by simp
  have p: "\<not> destroyed ?s" "promise ?s = Pending" "timerArmed ?s = timerArmed s"
    using n(1) Cons.prems by (simp_all add: spec_handleMessage_not_ack)
  have r: "run (specified g) (map Message (m # msgs)) s = run (specified g) (map Message msgs) ?s"
    using st by (simp add: run_def)
  show ?case using Cons.IH[of ?s] w n(2) p co unfolding r by simp
qed

lemma established_only_by_ack:
  assumes "handshake s \<noteq> Established" "handshake (step (specified g) e s) = Established"
  shows "\<exists>m. e = Message m \<and> isAck (childOrigin' s) m"
proof (cases e)
  case (Message m)
  show ?thesis
  proof (rule ccontr)
    assume "\<not> ?thesis"
    then have "\<not> isAck (childOrigin' s) m" using Message by simp
    then have "handshake (handleMessage (specified g) m s) \<noteq> Established"
      using assms(1) by (simp add: spec_handleMessage_not_ack)
    then show False using assms Message by (simp split: if_splits)
  qed
next
  case TimeoutElapsed
  then show ?thesis using assms
    by (simp add: timeoutElapsed_def destroy_handshake split: if_splits)
next
  case IframeRemoved
  then show ?thesis using assms
    by (simp add: iframeRemoved_def destroy_handshake split: if_splits)
next
  case (Destroy a)
  then show ?thesis using assms
    by (simp add: handleDestroy_def destroy_handshake)
qed



subsection \<open>Running the samples\<close>

lemmas sample_defs =
  sampleGetOrigin_def sampleOptions_def sampleAttempt_def bareOptions_def
  emptyOriginOptions_def synEvent_def ackMultiply_def ackDivide_def ackThen_def
  foreignAck_def callEvent_def emptyEvent_def

lemmas model_defs =
  connectToChild_def resolveChildOrigin_def serializeMethods_def executor_def newAttempt_def
  monitorIframeRemoval_def onDestroy_def startConnectionTimeout_def run_def handleDestroy_def
  destroy_def timeoutElapsed_def iframeRemoved_def eventMethodNames_def buildCallSender_def
  keySet_def fulfilledKeys_def isAck_def tagOf_def

lemmas run_defs =
  run_def spec_handler_defs tagOf_def resolve_def thenable_def keySet_def
  eventMethodNames_def buildCallSender_def handleDestroy_def destroy_def timeoutElapsed_def iframeRemoved_def cleanup_defs

lemma sample_connect:
  "connectToChild (specified sampleGetOrigin) sampleOptions = Inr sampleAttempt"
  by (simp add: model_defs specified_sel specValidateIframeHasSrcOrSrcDoc_def sample_defs)

section \<open>The claims\<close>

subsection \<open>C1: destroy() before settlement\<close>

text \<open>
  C1 reads: if the handle's \<^verbatim>\<open>destroy()\<close> is called before the result has settled, the
  pending result rejects with \<open>ConnectionDestroyed\<close>, carrying no cause, and no handshake
  message is sent afterward.

  The code does the second half and not the first. The handle's \<^verbatim>\<open>destroy\<close> calls the
  destructor with no error (lines 142 to 145), and the registered callback rejects only
  when it is given an error (lines 133 to 135). So, for all helpers, every attempt and
  every sequence of events \<open>pre\<close> after which the promise is still pending, a call of
  \<^verbatim>\<open>destroy\<close>, with any argument, leaves the promise pending for ever: after any further
  events \<open>post\<close> the promise is pending, the listener is off, and the outbox is what it
  was when \<^verbatim>\<open>destroy\<close> was called, so that no handshake message has been sent since.
\<close>

theorem destroy_before_settlement_stays_pending:
  assumes "connectToChild H options = Inr s0"
    and "promise (run H pre s0) = Pending"
  shows "promise (run H (pre @ Destroy arg # post) s0) = Pending
       \<and> outbox (run H (pre @ Destroy arg # post) s0) = outbox (run H pre s0)
       \<and> \<not> listening (run H (pre @ Destroy arg # post) s0)"
proof -
  let ?s = "run H pre s0"
  let ?d = "destroy None ?s"
  have w: "wired ?s" using assms(1) by (simp add: connect_wired wired_run)
  have wd: "wired ?d" "destroyed ?d" using w by (simp_all add: wired_destroy destroy_destroyed)
  have p: "promise ?d = Pending" using assms(2) by (simp add: destroy_promise_None)
  have ob: "outbox ?d = outbox ?s" by (simp add: destroy_def fold_runCallback_frame)
  have r: "run H (pre @ Destroy arg # post) s0 = run H post ?d"
    by (simp add: run_def handleDestroy_def)
  show ?thesis using destroyed_run[OF wd, of H post] p ob r by simp
qed

text \<open>An instance, with the helpers of the specification: a Syn is answered,
  \<^verbatim>\<open>destroy\<close> is called, then a Syn, an Ack, the timeout and the removal of the iframe
  follow.\<close>

theorem destroy_before_settlement_stays_pending_witness:
  "connectToChild (specified sampleGetOrigin) sampleOptions = Inr sampleAttempt
   \<and> promise (run (specified sampleGetOrigin) [Message synEvent] sampleAttempt) = Pending
   \<and> promise (run (specified sampleGetOrigin)
                [Message synEvent, Destroy None, Message synEvent, Message ackMultiply,
                 TimeoutElapsed, IframeRemoved] sampleAttempt) = Pending
   \<and> outbox (run (specified sampleGetOrigin)
               [Message synEvent, Destroy None, Message synEvent, Message ackMultiply,
                TimeoutElapsed, IframeRemoved] sampleAttempt)
       = outbox (run (specified sampleGetOrigin) [Message synEvent] sampleAttempt)
   \<and> \<not> listening (run (specified sampleGetOrigin)
                    [Message synEvent, Destroy None, Message synEvent, Message ackMultiply,
                     TimeoutElapsed, IframeRemoved] sampleAttempt)"
proof -
  have 1: "connectToChild (specified sampleGetOrigin) sampleOptions = Inr sampleAttempt"
    by (rule sample_connect)
  have 2: "promise (run (specified sampleGetOrigin) [Message synEvent] sampleAttempt) = Pending"
    by (simp add: run_defs sample_defs)
  show ?thesis
    using 1 2 destroy_before_settlement_stays_pending[OF 1 2, where arg = None
        and post = "[Message synEvent, Message ackMultiply, TimeoutElapsed, IframeRemoved]"]
    by simp
qed

text \<open>The claim as worded fails: after \<^verbatim>\<open>destroy()\<close> on a fresh attempt the promise is
  pending, not rejected, and the timeout and the removal of the iframe do not reject it
  later either.\<close>

theorem destroy_does_not_reject_counterexample:
  "connectToChild (specified sampleGetOrigin) sampleOptions = Inr sampleAttempt
   \<and> promise (run (specified sampleGetOrigin) [Destroy None] sampleAttempt) = Pending
   \<and> promise (run (specified sampleGetOrigin) [Destroy None, TimeoutElapsed, IframeRemoved]
                sampleAttempt) = Pending"
  by (simp add: sample_connect) (simp add: run_defs sample_defs)

subsection \<open>C2: no origin given and none to be found\<close>

text \<open>
  C2 reads: when the caller gives no expected origin and none can be determined from the
  iframe, establishment does not proceed and the failure is reported once, through the
  rejection of the returned handle's promise, not by a synchronous throw.

  The code validates the iframe at line 72, before the promise is made at line 96, and
  outside any \<^verbatim>\<open>try\<close>. So, for every request with no child origin (absent or empty):
  whatever the validation is, when it fails the failure is thrown out of
  \<^verbatim>\<open>connectToChild\<close>, so that establishment does not proceed, no handle is returned and
  no promise exists to be rejected; and with the validation of the specification, an
  iframe that has neither \<^verbatim>\<open>src\<close> nor \<^verbatim>\<open>srcdoc\<close> makes \<^verbatim>\<open>connectToChild\<close> throw
  \<open>PrincipalUnresolved\<close>.
\<close>

theorem unresolved_origin_throws_synchronously:
  assumes "childOrigin options = None \<or> childOrigin options = Some []"
  shows "(validateIframeHasSrcOrSrcDoc H (iframe options) = Some e
            \<longrightarrow> connectToChild H options = Inl e)
       \<and> (src (iframe options) = [] \<and> srcdoc (iframe options) = []
            \<longrightarrow> connectToChild (specified g) options = Inl (PenpalError PrincipalUnresolved))"
  using assms
  by (auto simp: connectToChild_def resolveChildOrigin_def specified_sel
      specValidateIframeHasSrcOrSrcDoc_def)

theorem unresolved_origin_throws_synchronously_witness:
  "(childOrigin emptyOriginOptions = None \<or> childOrigin emptyOriginOptions = Some [])
   \<and> validateIframeHasSrcOrSrcDoc (specified sampleGetOrigin) (iframe emptyOriginOptions)
       = Some (PenpalError PrincipalUnresolved)
   \<and> src (iframe emptyOriginOptions) = [] \<and> srcdoc (iframe emptyOriginOptions) = []
   \<and> connectToChild (specified sampleGetOrigin) emptyOriginOptions
       = Inl (PenpalError PrincipalUnresolved)"
proof -
  have 1: "childOrigin emptyOriginOptions = None \<or> childOrigin emptyOriginOptions = Some []"
    by (simp add: emptyOriginOptions_def)
  have 2: "validateIframeHasSrcOrSrcDoc (specified sampleGetOrigin) (iframe emptyOriginOptions)
       = Some (PenpalError PrincipalUnresolved)"
    by (simp add: specified_sel specValidateIframeHasSrcOrSrcDoc_def emptyOriginOptions_def)
  have 3: "src (iframe emptyOriginOptions) = []" "srcdoc (iframe emptyOriginOptions) = []"
    by (simp_all add: emptyOriginOptions_def)
  show ?thesis
    using 1 2 3
      unresolved_origin_throws_synchronously[OF 1, where H = "specified sampleGetOrigin"
        and e = "PenpalError PrincipalUnresolved" and g = sampleGetOrigin]
    by simp
qed

text \<open>The claim as worded fails: with no child origin and a bare iframe the call ends in an
  exception, and there is no handle whose promise could be rejected.\<close>

theorem unresolved_origin_no_handle_counterexample:
  "connectToChild (specified sampleGetOrigin) bareOptions
     = Inl (PenpalError PrincipalUnresolved)"
  by (simp add: model_defs specified_sel specValidateIframeHasSrcOrSrcDoc_def sample_defs)

subsection \<open>C3: one settlement, one cleanup\<close>

text \<open>
  C3: for every attempt, the result settles at most once, and the handle's \<^verbatim>\<open>destroy()\<close>
  may be called any number of times, at any time, without throwing and without running
  the registered cleanup list more than once.

  For all helpers, every attempt \<^verbatim>\<open>connectToChild\<close> returns and every sequence of events
  \<open>t\<close>, with any number of calls of \<^verbatim>\<open>destroy\<close> anywhere in it: a promise that has
  settled after \<open>t\<close> (or is locked in, so that nothing in this file can settle it any
  more) is the same after any further events \<open>t'\<close>; the history of callbacks
  run is empty or is one pass over the two registered callbacks; a call of \<^verbatim>\<open>destroy\<close>
  after a call of \<^verbatim>\<open>destroy\<close> changes nothing. \<^verbatim>\<open>destroy\<close> has no exception to throw: it
  is a total function on attempts, as are the callbacks it runs.
\<close>

theorem settles_once_cleanup_once:
  assumes "connectToChild H options = Inr s0"
  shows "(promise (run H t s0) \<noteq> Pending
            \<longrightarrow> promise (run H (t @ t') s0) = promise (run H t s0))
       \<and> (cleanupLog (run H t s0) = []
           \<or> map fst (cleanupLog (run H t s0)) = [IframeMonitorCleanup, ListenerCleanup])
       \<and> handleDestroy a (handleDestroy b (run H t s0)) = handleDestroy b (run H t s0)"
proof -
  have w: "wired (run H t s0)" using assms by (simp add: connect_wired wired_run)
  have 1: "promise (run H t s0) \<noteq> Pending
            \<longrightarrow> promise (run H (t @ t') s0) = promise (run H t s0)"
    by (simp add: run_append run_promise_settled)
  have 2: "cleanupLog (run H t s0) = []
           \<or> map fst (cleanupLog (run H t s0)) = [IframeMonitorCleanup, ListenerCleanup]"
    using w by (auto simp: wired_def split: if_splits)
  have 3: "handleDestroy a (handleDestroy b (run H t s0)) = handleDestroy b (run H t s0)"
    by (simp add: handleDestroy_def destroy_idem destroy_destroyed)
  show ?thesis using 1 2 3 by blast
qed

text \<open>An instance, with the helpers of the specification: an Ack fulfils the promise,
  \<^verbatim>\<open>destroy\<close> is called three times, once with an error; then the timeout, a second Ack
  and the removal of the iframe follow.\<close>

theorem settles_once_cleanup_once_witness:
  "connectToChild (specified sampleGetOrigin) sampleOptions = Inr sampleAttempt
   \<and> promise (run (specified sampleGetOrigin)
                [Message ackMultiply, Destroy None, Destroy (Some (PenpalError PeerLost)),
                 Destroy None] sampleAttempt) \<noteq> Pending
   \<and> promise (run (specified sampleGetOrigin)
                [Message ackMultiply, Destroy None, Destroy (Some (PenpalError PeerLost)),
                 Destroy None, TimeoutElapsed, Message ackDivide, IframeRemoved]
                sampleAttempt)
       = promise (run (specified sampleGetOrigin)
                   [Message ackMultiply, Destroy None, Destroy (Some (PenpalError PeerLost)),
                    Destroy None] sampleAttempt)
   \<and> map fst (cleanupLog (run (specified sampleGetOrigin)
                            [Message ackMultiply, Destroy None,
                             Destroy (Some (PenpalError PeerLost)), Destroy None]
                            sampleAttempt))
       = [IframeMonitorCleanup, ListenerCleanup]"
proof -
  have 1: "connectToChild (specified sampleGetOrigin) sampleOptions = Inr sampleAttempt"
    by (rule sample_connect)
  have 2: "promise (run (specified sampleGetOrigin)
                [Message ackMultiply, Destroy None, Destroy (Some (PenpalError PeerLost)),
                 Destroy None] sampleAttempt) \<noteq> Pending"
    by (simp add: run_defs sample_defs)
  have 3: "cleanupLog (run (specified sampleGetOrigin)
                [Message ackMultiply, Destroy None, Destroy (Some (PenpalError PeerLost)),
                 Destroy None] sampleAttempt) \<noteq> []"
    by (simp add: run_defs sample_defs)
  show ?thesis
    using 1 2 3 settles_once_cleanup_once[OF 1,
        where t = "[Message ackMultiply, Destroy None, Destroy (Some (PenpalError PeerLost)),
                    Destroy None]"
        and t' = "[TimeoutElapsed, Message ackDivide, IframeRemoved]"
        and a = "None :: PenpalError option" and b = "None :: PenpalError option"]
    by simp
qed

subsection \<open>C4: the Ack fulfils the promise with the peer's method names\<close>

text \<open>
  C4: for every attempt, if an Ack from the expected origin arrives before the timeout
  elapses, the result fulfils with a remote-call interface whose key set is exactly the
  \<^verbatim>\<open>methodNames\<close> of that Ack.

  The code means to do this: line 116 hands the call sender to \<^verbatim>\<open>resolve\<close>. It misses one
  case. The native \<^verbatim>\<open>resolve\<close> does not fulfil a promise with an object whose \<^verbatim>\<open>then\<close> is
  callable; it locks the promise in to that object. A peer may advertise a method named
  \<^verbatim>\<open>then\<close>. So, for all helpers, every attempt whose promise is pending and every event
  tagged Ack for which the Ack handler returns a call sender with a method named
  \<^verbatim>\<open>then\<close>: after \<^verbatim>\<open>handleMessage\<close> the promise is locked in to the call sender and is
  not fulfilled, so that no interface is delivered, whatever its key set.
\<close>

theorem ack_with_then_is_not_fulfilled:
  assumes "tagOf event = Some Ack"
    and "fst (handleAckMessage H event s) = Some callSender"
    and "thenable callSender"
    and "promise s = Pending"
  shows "promise (handleMessage H event s) = LockedIn callSender
       \<and> fulfilledKeys (promise (handleMessage H event s)) = None"
  using assms by (simp add: handleMessage_cases ackBranch_promise fulfilledKeys_def)

text \<open>The failing input, with the helpers of the specification: the fresh attempt of the
  samples receives from the child an Ack whose \<^verbatim>\<open>methodNames\<close> is \<^verbatim>\<open>["then"]\<close>. The
  promise is not fulfilled with an interface whose key set is \<^verbatim>\<open>{then}\<close>: it is not
  fulfilled at all.\<close>

theorem ack_with_then_is_not_fulfilled_witness:
  "connectToChild (specified sampleGetOrigin) sampleOptions = Inr sampleAttempt
   \<and> isAck (childOrigin' sampleAttempt) ackThen
   \<and> tagOf ackThen = Some Ack
   \<and> fst (handleAckMessage (specified sampleGetOrigin) ackThen sampleAttempt)
       = Some [(''then'', Stub ''then'' ''https://child.example'')]
   \<and> thenable [(''then'', Stub ''then'' ''https://child.example'')]
   \<and> promise sampleAttempt = Pending
   \<and> promise (handleMessage (specified sampleGetOrigin) ackThen sampleAttempt)
       = LockedIn [(''then'', Stub ''then'' ''https://child.example'')]
   \<and> fulfilledKeys (promise (handleMessage (specified sampleGetOrigin) ackThen sampleAttempt))
       = None
   \<and> run (specified sampleGetOrigin) [Message ackThen] sampleAttempt
       = handleMessage (specified sampleGetOrigin) ackThen sampleAttempt
   \<and> set (eventMethodNames ackThen) = {''then''}"
proof -
  have 1: "tagOf ackThen = Some Ack" by (simp add: tagOf_def sample_defs)
  have 2: "fst (handleAckMessage (specified sampleGetOrigin) ackThen sampleAttempt)
       = Some [(''then'', Stub ''then'' ''https://child.example'')]"
    by (simp add: spec_handleAckMessage eventMethodNames_def buildCallSender_def sample_defs)
  have 3: "thenable [(''then'', Stub ''then'' ''https://child.example'')]"
    by (simp add: thenable_def keySet_def)
  have 4: "promise sampleAttempt = Pending" by (simp add: sample_defs)
  have 5: "isAck (childOrigin' sampleAttempt) ackThen"
    by (simp add: isAck_def tagOf_def sample_defs)
  have 6: "run (specified sampleGetOrigin) [Message ackThen] sampleAttempt
       = handleMessage (specified sampleGetOrigin) ackThen sampleAttempt"
    by (simp add: run_def sampleAttempt_def)
  have 7: "set (eventMethodNames ackThen) = {''then''}"
    by (simp add: eventMethodNames_def sample_defs)
  show ?thesis
    using sample_connect 1 2 3 4 5 6 7 ack_with_then_is_not_fulfilled[OF 1 2 3 4]
    by (simp add: fulfilledKeys_def)
qed

text \<open>For every other Ack the code does what C4 says. With the helpers of the
  specification, for every attempt \<^verbatim>\<open>connectToChild\<close> returns: let messages arrive and
  nothing else happen (the timeout has not elapsed, the iframe is there, \<^verbatim>\<open>destroy\<close> has
  not been called), none of the messages an Ack from the expected origin; then let an Ack
  from the expected origin arrive that advertises no method named \<^verbatim>\<open>then\<close>. Then the
  promise is fulfilled, and the key set of the interface it is fulfilled with is the set
  of the method names that the Ack carries.\<close>

lemma ack_without_then_fulfills:
  assumes "connectToChild (specified g) options = Inr s0"
    and "noAck (childOrigin' s0) msgs"
    and "isAck (childOrigin' s0) ack"
    and "''then'' \<notin> set (eventMethodNames ack)"
  shows "fulfilledKeys (promise (run (specified g) (map Message msgs @ [Message ack]) s0))
           = Some (set (eventMethodNames ack))"
proof -
  let ?s = "run (specified g) (map Message msgs) s0"
  have a: "wired ?s \<and> \<not> destroyed ?s \<and> promise ?s = Pending"
    using awaiting_messages[of s0 msgs g] assms(2) connect_wired[OF assms(1)]
      connect_initial[OF assms(1)]
    by simp
  have i: "inStep ?s"
    using connect_wired[OF assms(1)] connect_inStep[OF assms(1)] by (simp add: inStep_run)
  have co: "childOrigin' ?s = childOrigin' s0" by (simp add: run_frame)
  have l: "listening ?s" "handshake ?s \<noteq> Established"
    using a i by (auto simp: wired_def inStep_def)
  have "promise (handleMessage (specified g) ack ?s)
      = Fulfilled (buildCallSender (originForSending ?s) (eventMethodNames ack))"
    using spec_handleMessage_ack[of ?s ack g] assms(3,4) co l a
    by (simp add: resolve_def thenable_def keySet_buildCallSender)
  then show ?thesis
    using l by (simp add: run_append run_def fulfilledKeys_def keySet_buildCallSender)
qed

subsection \<open>C5: the timeout\<close>

text \<open>
  C5: for every attempt with a positive timeout, if no Ack from the expected origin
  arrives before the timeout elapses, the result rejects with \<open>ConnectionTimedOut\<close>, and
  by then the message listener has been removed, so that no further handler processing
  affects the destroyed attempt.

  With the helpers of the specification, for every attempt \<^verbatim>\<open>connectToChild\<close> returns
  for a positive timeout: let messages arrive and nothing else happen (the iframe is
  there, \<^verbatim>\<open>destroy\<close> has not been called), none of the messages an Ack from the expected
  origin; then let the timeout elapse. Then the promise is rejected with
  \<open>ConnectionTimedOut\<close>, the listener is off, and whatever messages arrive later leave the
  attempt exactly as the timeout left it.
\<close>

theorem timeout_rejects_and_unsubscribes:
  assumes "connectToChild (specified g) options = Inr s0"
    and "timeout options = Some ms" and "0 < ms"
    and "noAck (childOrigin' s0) msgs"
  shows "promise (run (specified g) (map Message msgs @ [TimeoutElapsed]) s0)
           = Rejected (PenpalError ConnectionTimedOut)
       \<and> \<not> listening (run (specified g) (map Message msgs @ [TimeoutElapsed]) s0)
       \<and> run (specified g) (map Message msgs @ TimeoutElapsed # map Message later) s0
           = run (specified g) (map Message msgs @ [TimeoutElapsed]) s0"
proof -
  let ?s = "run (specified g) (map Message msgs) s0"
  let ?d = "timeoutElapsed ?s"
  have a: "wired ?s \<and> \<not> destroyed ?s \<and> promise ?s = Pending \<and> timerArmed ?s"
    using awaiting_messages[of s0 msgs g] assms connect_wired[OF assms(1)]
      connect_initial[OF assms(1)]
    by simp
  have p: "promise ?d = Rejected (PenpalError ConnectionTimedOut)" "\<not> listening ?d"
    using a by (auto simp: timeoutElapsed_def destroy_def wired_def cleanup_defs)
  have idle: "run (specified g) (map Message later) ?d = ?d"
    using p(2) unfolding run_def by (induction later) simp_all
  have r: "run (specified g) (map Message msgs @ [TimeoutElapsed]) s0 = ?d"
    "run (specified g) (map Message msgs @ TimeoutElapsed # map Message later) s0
       = run (specified g) (map Message later) ?d"
    by (simp_all add: run_def)
  show ?thesis using p idle r by simp
qed

text \<open>An instance: a timeout of 500 ms; a Syn and a stranger's Ack arrive, the timeout
  elapses, the child's Ack comes too late.\<close>

theorem timeout_rejects_and_unsubscribes_witness:
  "connectToChild (specified sampleGetOrigin) sampleOptions = Inr sampleAttempt
   \<and> timeout sampleOptions = Some 500 \<and> (0::int) < 500
   \<and> noAck (childOrigin' sampleAttempt) [synEvent, foreignAck]
   \<and> promise (run (specified sampleGetOrigin)
                [Message synEvent, Message foreignAck, TimeoutElapsed] sampleAttempt)
       = Rejected (PenpalError ConnectionTimedOut)
   \<and> \<not> listening (run (specified sampleGetOrigin)
                    [Message synEvent, Message foreignAck, TimeoutElapsed] sampleAttempt)
   \<and> run (specified sampleGetOrigin)
         [Message synEvent, Message foreignAck, TimeoutElapsed, Message ackMultiply]
         sampleAttempt
       = run (specified sampleGetOrigin)
           [Message synEvent, Message foreignAck, TimeoutElapsed] sampleAttempt"
proof -
  have 1: "connectToChild (specified sampleGetOrigin) sampleOptions = Inr sampleAttempt"
    by (rule sample_connect)
  have 2: "timeout sampleOptions = Some 500" by (simp add: sampleOptions_def)
  have 3: "(0::int) < 500" by simp
  have 4: "noAck (childOrigin' sampleAttempt) [synEvent, foreignAck]"
    by (simp add: isAck_def tagOf_def sample_defs)
  show ?thesis
    using 1 2 3 4
      timeout_rejects_and_unsubscribes[OF 1 2 3 4, where later = "[ackMultiply]"]
    by simp
qed

subsection \<open>C6: handshake messages from another origin\<close>

text \<open>
  C6: for every attempt and every inbound Syn or Ack whose sender is not the expected
  origin, processing the message changes no state, sends nothing, and neither resolves
  nor rejects the result.

  With the helpers of the specification, for every attempt, in any state, and every
  event tagged Syn or Ack whose origin differs from the expected one: \<^verbatim>\<open>handleMessage\<close>
  returns the attempt as it was, outbox and promise included, and so does the delivery of
  the event.
\<close>

theorem foreign_handshake_message_discarded:
  assumes "origin event \<noteq> childOrigin' s"
    and "tagOf event = Some Syn \<or> tagOf event = Some Ack"
  shows "handleMessage (specified g) event s = s
       \<and> step (specified g) (Message event) s = s"
  using spec_handleMessage_foreign[OF assms] by simp

theorem foreign_handshake_message_discarded_witness:
  "origin foreignAck \<noteq> childOrigin' sampleAttempt
   \<and> (tagOf foreignAck = Some Syn \<or> tagOf foreignAck = Some Ack)
   \<and> handleMessage (specified sampleGetOrigin) foreignAck sampleAttempt = sampleAttempt
   \<and> step (specified sampleGetOrigin) (Message foreignAck) sampleAttempt = sampleAttempt"
proof -
  have 1: "origin foreignAck \<noteq> childOrigin' sampleAttempt"
    by (simp add: sample_defs)
  have 2: "tagOf foreignAck = Some Syn \<or> tagOf foreignAck = Some Ack"
    by (simp add: tagOf_def sample_defs)
  show ?thesis
    using 1 2 foreign_handshake_message_discarded[OF 1 2, of sampleGetOrigin] by simp
qed

subsection \<open>C7: messages that are not handshake messages\<close>

text \<open>
  C7: for every inbound message whose data is absent or carries no recognised protocol
  tag (neither Syn nor Ack), the message and the attempt are left untouched: no handler
  runs, nothing is sent, the result is neither resolved nor rejected.

  For all helpers, every attempt, in any state, and every event whose tag is neither Syn
  nor Ack (an event with no data has no tag): \<^verbatim>\<open>handleMessage\<close> returns the attempt as it
  was, and so does the delivery of the event. No helper is called: the result does not
  depend on them. The event is a value: nothing can change it.
\<close>

theorem untagged_message_ignored:
  assumes "tagOf event \<noteq> Some Syn" and "tagOf event \<noteq> Some Ack"
  shows "handleMessage H event s = s \<and> step H (Message event) s = s"
  using handleMessage_untagged[OF assms] by simp

text \<open>Two instances: a call message, and an event with no data.\<close>

theorem untagged_message_ignored_witness:
  "tagOf callEvent \<noteq> Some Syn \<and> tagOf callEvent \<noteq> Some Ack
   \<and> handleMessage (specified sampleGetOrigin) callEvent sampleAttempt = sampleAttempt
   \<and> step (specified sampleGetOrigin) (Message callEvent) sampleAttempt = sampleAttempt
   \<and> tagOf emptyEvent \<noteq> Some Syn \<and> tagOf emptyEvent \<noteq> Some Ack
   \<and> handleMessage (specified sampleGetOrigin) emptyEvent sampleAttempt = sampleAttempt"
proof -
  have 1: "tagOf callEvent \<noteq> Some Syn" by (simp add: tagOf_def sample_defs)
  have 2: "tagOf callEvent \<noteq> Some Ack" by (simp add: tagOf_def sample_defs)
  have 3: "tagOf emptyEvent \<noteq> Some Syn" by (simp add: tagOf_def sample_defs)
  have 4: "tagOf emptyEvent \<noteq> Some Ack" by (simp add: tagOf_def sample_defs)
  show ?thesis
    using 1 2 3 4
      untagged_message_ignored[OF 1 2, of "specified sampleGetOrigin" sampleAttempt]
      untagged_message_ignored[OF 3 4, of "specified sampleGetOrigin" sampleAttempt]
    by simp
qed

subsection \<open>C8: a second Ack\<close>



subsection \<open>C9: a Syn does not establish\<close>

text \<open>
  C9: for every attempt, processing a Syn from the expected origin never moves the attempt
  to \<open>Established\<close> and never settles the result; establishment completes only on receipt
  of the peer's Ack.

  In the code the attempt is established where the promise is resolved, at line 116, in
  the Ack branch. For all helpers, every attempt, in any state \<open>s\<close>, and every event
  tagged Syn: \<^verbatim>\<open>handleMessage\<close> does what the Syn handler does and nothing more; it leaves
  the promise, the timeout and the destructor as they were. And whatever event \<open>e\<close>
  takes a pending promise to one that is resolved with a call sender, fulfilled or locked
  in, it is a message tagged Ack for which the Ack handler has returned that call sender.

  With the helpers of the specification, in any state \<open>s'\<close>: a Syn from the expected
  origin leaves an attempt that was not \<open>Established\<close> not \<open>Established\<close> and posts the
  parent's Ack, so the handler did run; and whatever event \<open>e'\<close> takes the state machine
  to \<open>Established\<close>, it is a message that is an Ack from the expected origin.
\<close>

theorem syn_never_establishes:
  assumes "tagOf event = Some Syn"
  shows "handleMessage H event s = handleSynMessage H event s
       \<and> promise (handleMessage H event s) = promise s
       \<and> timerArmed (handleMessage H event s) = timerArmed s
       \<and> destroyed (handleMessage H event s) = destroyed s
       \<and> (promise s = Pending \<and> resolution (promise (step H e s)) = Some callSender
            \<longrightarrow> (\<exists>m. e = Message m \<and> tagOf m = Some Ack
                      \<and> fst (handleAckMessage H m s) = Some callSender))
       \<and> (origin event = childOrigin' s' \<and> handshake s' \<noteq> Established
            \<longrightarrow> handshake (handleMessage (specified g) event s') \<noteq> Established
                \<and> outbox (handleMessage (specified g) event s')
                    = outbox s' @ [(AckMessage (serializedMethods s'), originForSending s')])
       \<and> (handshake s' \<noteq> Established \<and> handshake (step (specified g) e' s') = Established
            \<longrightarrow> (\<exists>m. e' = Message m \<and> isAck (childOrigin' s') m))"
  using resolved_only_by_ack[of s H e callSender] established_only_by_ack[of s' g e']
    spec_handleMessage_syn[OF assms, of s' g]
  by (simp add: handleMessage_syn[OF assms] handleSynMessage_frame)

text \<open>An instance: the fresh attempt answers the child's Syn with its one method name and
  awaits the Ack; the child's Ack is what fulfils the promise and establishes the
  attempt.\<close>

theorem syn_never_establishes_witness:
  "tagOf synEvent = Some Syn
   \<and> promise (handleMessage (specified sampleGetOrigin) synEvent sampleAttempt)
       = promise sampleAttempt
   \<and> promise sampleAttempt = Pending
   \<and> promise (step (specified sampleGetOrigin) (Message ackMultiply) sampleAttempt)
       = Fulfilled [(''multiply'', Stub ''multiply'' ''https://child.example'')]
   \<and> resolution (promise (step (specified sampleGetOrigin) (Message ackMultiply)
                             sampleAttempt))
       = Some [(''multiply'', Stub ''multiply'' ''https://child.example'')]
   \<and> tagOf ackMultiply = Some Ack
   \<and> origin synEvent = childOrigin' sampleAttempt
   \<and> handshake sampleAttempt \<noteq> Established
   \<and> handshake (handleMessage (specified sampleGetOrigin) synEvent sampleAttempt)
       \<noteq> Established
   \<and> outbox (handleMessage (specified sampleGetOrigin) synEvent sampleAttempt)
       = [(AckMessage [''add''], ''https://child.example'')]
   \<and> handshake (step (specified sampleGetOrigin) (Message ackMultiply) sampleAttempt)
       = Established
   \<and> isAck (childOrigin' sampleAttempt) ackMultiply"
proof -
  have 1: "tagOf synEvent = Some Syn" by (simp add: tagOf_def sample_defs)
  have 2: "origin synEvent = childOrigin' sampleAttempt" by (simp add: sample_defs)
  have 3: "handshake sampleAttempt \<noteq> Established" "promise sampleAttempt = Pending"
    "outbox sampleAttempt = []" "serializedMethods sampleAttempt = [''add'']"
    "originForSending sampleAttempt = ''https://child.example''"
    by (simp_all add: sample_defs)
  have 4: "handshake (step (specified sampleGetOrigin) (Message ackMultiply) sampleAttempt)
      = Established"
    "promise (step (specified sampleGetOrigin) (Message ackMultiply) sampleAttempt)
      = Fulfilled [(''multiply'', Stub ''multiply'' ''https://child.example'')]"
    by (simp_all add: run_defs sample_defs)
  have 5: "resolution (promise (step (specified sampleGetOrigin) (Message ackMultiply)
                             sampleAttempt))
       = Some [(''multiply'', Stub ''multiply'' ''https://child.example'')]"
    unfolding 4 by (simp add: resolution_def)
  show ?thesis
    using 1 2 3 4 5
      syn_never_establishes[OF 1, where H = "specified sampleGetOrigin"
        and s = sampleAttempt and s' = sampleAttempt and g = sampleGetOrigin
        and e = "Message ackMultiply" and e' = "Message ackMultiply"
        and callSender = "[(''multiply'', Stub ''multiply'' ''https://child.example'')]"]
    by auto
qed

subsection \<open>C10: the argument of destroy()\<close>

text \<open>
  C10: whatever argument a caller passes to the handle's \<^verbatim>\<open>destroy()\<close>, the behaviour is
  that of \<^verbatim>\<open>destroy()\<close> with no argument: the destruction runs with no failure cause, so
  that a consumer can never make a cause reach the cleanup callbacks or the rejection of
  the result.

  For every attempt, in any state, and every argument: the handle's \<^verbatim>\<open>destroy\<close> does what
  it does with no argument, which is what the destructor does with no cause; it leaves
  the promise as it was; and the callbacks it runs, if the attempt was not yet destroyed,
  are each given no cause.
\<close>

theorem destroy_argument_ignored:
  "handleDestroy (Some v) s = handleDestroy None s
   \<and> handleDestroy (Some v) s = destroy None s
   \<and> promise (handleDestroy (Some v) s) = promise s
   \<and> cleanupLog (handleDestroy (Some v) s)
       = cleanupLog s @ (if destroyed s then [] else map (\<lambda>c. (c, None)) (callbacks s))"
  by (simp add: handleDestroy_def destroy_promise_None)
     (simp add: destroy_def fold_runCallback_frame)

end
